theory Spec2Isabelle
  imports Main
begin

section \<open>JavaScript strings\<close>

text \<open>
  Strings are lists of characters. The rules file and the request lines are taken to be
  ASCII, so one \<^typ>\<open>char\<close> is one UTF-16 code unit of the JavaScript string.
\<close>

definition isWhiteSpace :: "char \<Rightarrow> bool" where
  \<comment> \<open>the ASCII members of WhiteSpace and LineTerminator: TAB, LF, VT, FF, CR, SP\<close>
  "isWhiteSpace c = (of_char c \<in> {9, 10, 11, 12, 13, 32 :: nat})"

definition trim :: "string \<Rightarrow> string" where
  \<comment> \<open>\<^verbatim>\<open>String.prototype.trim\<close>\<close>
  "trim s = rev (dropWhile isWhiteSpace (rev (dropWhile isWhiteSpace s)))"

fun split :: "char \<Rightarrow> string \<Rightarrow> string list" where
  \<comment> \<open>\<^verbatim>\<open>s.split(c)\<close> for a separator of one character; the empty string gives one empty piece\<close>
  "split c [] = [[]]"
| "split c (x # xs) =
     (if x = c then [] # split c xs
      else (case split c xs of [] \<Rightarrow> [[x]] | w # ws \<Rightarrow> (x # w) # ws))"

definition startsWith :: "string \<Rightarrow> string \<Rightarrow> bool" where
  "startsWith s t = (take (length t) s = t)"

definition endsWith :: "string \<Rightarrow> string \<Rightarrow> bool" where
  "endsWith s t = (length t \<le> length s \<and> drop (length s - length t) s = t)"

fun includes_str :: "string \<Rightarrow> string \<Rightarrow> bool" where
  \<comment> \<open>\<^verbatim>\<open>s.includes(t)\<close>: \<open>t\<close> occurs in \<open>s\<close> as a substring\<close>
  "includes_str [] t = (t = [])"
| "includes_str (x # xs) t = (startsWith (x # xs) t \<or> includes_str xs t)"

fun digits :: "nat \<Rightarrow> string" where
  \<comment> \<open>the decimal numeral a template literal prints for a non-negative integer\<close>
  "digits n =
     (if n < 10 then [char_of (48 + n)]
      else digits (n div 10) @ [char_of (48 + n mod 10)])"

declare digits.simps [simp del]

definition quoted :: "string \<Rightarrow> string" where
  \<comment> \<open>a string between two double quotes, as the diagnostics print the line\<close>
  "quoted s = [CHR 0x22] @ s @ [CHR 0x22]"

definition index :: "'a list \<Rightarrow> nat \<Rightarrow> 'a option" where
  \<comment> \<open>\<^verbatim>\<open>xs[i]\<close>: \<open>undefined\<close> (here \<open>None\<close>) out of range\<close>
  "index xs i = (if i < length xs then Some (xs ! i) else None)"

section \<open>Data model\<close>

text \<open>
  A parsed WHATWG URL object, by the components the server reads and assigns. The scheme
  is kept without its colon, \<open>host\<close> is the host with its port, and the query is the
  list of pairs that \<^verbatim>\<open>searchParams\<close> iterates over.
\<close>

record URL =
  protocol :: string
  host :: string
  pathname :: string
  searchParams :: "(string \<times> string) list"
  hash :: string

text \<open>
  One entry of \<^verbatim>\<open>redirects\<close>. \<open>fromRe\<close> is the regular expression returned by
  \<^verbatim>\<open>pathToRegexp\<close> (field \<^verbatim>\<open>from\<close> of the source), \<open>keys\<close> the names of the key
  objects it pushed, \<open>toPathname\<close> the compiled path function.
\<close>

record ('rx, 'tpl) redirect =
  methods :: "string list"
  fromRe :: 'rx
  keys :: "string list"
  toPathname :: 'tpl
  toUrl :: URL

text \<open>
  The request, by what the two middlewares read: \<^verbatim>\<open>req.method\<close> (field
  \<open>req_method\<close>), \<^verbatim>\<open>req.url\<close>,
  \<^verbatim>\<open>req.path\<close>, and the two headers, \<open>None\<close> when the header is absent
  (\<^verbatim>\<open>req.header\<close> returns \<^verbatim>\<open>undefined\<close>).
\<close>

record request =
  req_method :: string
  url :: string
  path :: string
  xForwardedHost :: "string option"
  hostHeader :: "string option"

datatype response = Redirect nat string | Next

datatype js_error =
    InvalidURL string
  | UndefinedProperty string

text \<open>
  The packages \<^verbatim>\<open>url\<close> and \<^verbatim>\<open>path-to-regexp\<close> are not part of the repository;
  the server is modelled over any implementation of the six operations it calls.
  \<open>None\<close> stands for a thrown exception, except in \<open>pathMatch\<close>, where it is the
  \<^verbatim>\<open>null\<close> of \<^verbatim>\<open>String.prototype.match\<close>; a match is the array of the whole match
  followed by the capture groups, an unmatched group being \<^verbatim>\<open>undefined\<close>.
\<close>

record ('rx, 'tpl) lib =
  newURL :: "string \<Rightarrow> URL option"
  pathToRegexp :: "string \<Rightarrow> ('rx \<times> string list) option"
  compileRedirectPath :: "string \<Rightarrow> 'tpl option"
  pathMatch :: "string \<Rightarrow> 'rx \<Rightarrow> string option list option"
  applyTemplate :: "'tpl \<Rightarrow> (string \<Rightarrow> string option) \<Rightarrow> string option"
  urlToString :: "URL \<Rightarrow> string"

section \<open>The rule compiler\<close>

definition possibleMethods :: "string list" where
  "possibleMethods = [''HEAD'', ''GET'', ''POST'', ''PUT'', ''DELETE'', ''PATCH'', ''*'']"

definition tokens :: "string \<Rightarrow> string list" where
  \<comment> \<open>\<^verbatim>\<open>line.split(' ').map(l => l.trim()).filter(Boolean)\<close>\<close>
  "tokens line = filter (\<lambda>l. l \<noteq> []) (map trim (split CHR '' '' line))"

definition resolveTokens ::
  "string \<Rightarrow> string option \<Rightarrow> string option
     \<Rightarrow> string list \<times> string option \<times> string option" where
  \<comment> \<open>the choice of \<^verbatim>\<open>methods\<close>, \<^verbatim>\<open>from\<close> and \<^verbatim>\<open>to\<close> among the first three tokens\<close>
  "resolveTokens one two three =
     (let splitOne = split CHR '','' one in
      if list_ex (\<lambda>m. m \<in> set splitOne) possibleMethods
      then (splitOne, two, three)
      else ([''*''], Some one, two))"

definition falsy :: "string option \<Rightarrow> bool" where
  \<comment> \<open>\<^verbatim>\<open>!x\<close> for a value that is a string or \<^verbatim>\<open>undefined\<close>\<close>
  "falsy x = (case x of None \<Rightarrow> True | Some s \<Rightarrow> s = [])"

definition compileRedirect ::
  "('rx, 'tpl) lib \<Rightarrow> string list \<Rightarrow> string \<Rightarrow> URL \<Rightarrow> ('rx, 'tpl) redirect option" where
  \<comment> \<open>the object literal inside \<^verbatim>\<open>try\<close>; \<open>None\<close> when one of the two compilations throws\<close>
  "compileRedirect L ms from_pat u =
     (case pathToRegexp L from_pat of
        None \<Rightarrow> None
      | Some (re, ks) \<Rightarrow>
          (case compileRedirectPath L (pathname u) of
             None \<Rightarrow> None
           | Some tpl \<Rightarrow>
               Some \<lparr>methods = ms, fromRe = re, keys = ks, toPathname = tpl, toUrl = u\<rparr>))"

text \<open>
  The loop over the lines. \<open>lineNumber\<close> is the loop counter (from 0), \<open>redirects\<close>
  the array built so far and \<open>log\<close> the lines written by \<^verbatim>\<open>console.error\<close> so far.
  An exception that leaves the loop is \<open>Inl\<close>: the constructor \<^verbatim>\<open>new URL\<close> is called
  before the \<^verbatim>\<open>try\<close> block.
\<close>

fun compileLines ::
  "('rx, 'tpl) lib \<Rightarrow> string list \<Rightarrow> nat \<Rightarrow> ('rx, 'tpl) redirect list \<Rightarrow> string list
     \<Rightarrow> js_error + (('rx, 'tpl) redirect list \<times> string list)" where
  "compileLines L [] lineNumber redirects log = Inr (redirects, log)"
| "compileLines L (l # ls) lineNumber redirects log =
     (let line = trim l in
      if line = [] \<or> startsWith line ''#''
      then compileLines L ls (Suc lineNumber) redirects log
      else
        (case tokens line of
           [] \<Rightarrow> Inl (UndefinedProperty ''split'')
         | one # rest \<Rightarrow>
             (case resolveTokens one (index rest 0) (index rest 1) of
                (ms, from_tok, to_tok) \<Rightarrow>
                  if falsy from_tok \<or> falsy to_tok
                  then compileLines L ls (Suc lineNumber) redirects
                         (log @ [''Invalid redirect on line '' @ digits (lineNumber + 1)
                                   @ '': '' @ quoted line])
                  else
                    (let from_pat = the from_tok; to = the to_tok;
                         href = (if includes_str to ''//'' then to
                                 else ''https://same_host'' @ to)
                     in case newURL L href of
                          None \<Rightarrow> Inl (InvalidURL href)
                        | Some u \<Rightarrow>
                            (case compileRedirect L ms from_pat u of
                               Some r \<Rightarrow>
                                 compileLines L ls (Suc lineNumber) (redirects @ [r]) log
                             | None \<Rightarrow>
                                 compileLines L ls (Suc lineNumber) redirects
                                   (log @ [''Failed to parse redirect on line ''
                                             @ digits lineNumber
                                             @ '': '' @ quoted line]))))))"

definition getRedirectsMiddleware ::
  "('rx, 'tpl) lib \<Rightarrow> string
     \<Rightarrow> js_error + (('rx, 'tpl) redirect list \<times> string list)" where
  \<comment> \<open>the compilation of \<^verbatim>\<open>redirectsString\<close>; the closure returned is \<open>redirectsMiddleware\<close>
      below, over the \<open>redirects\<close> computed here\<close>
  "getRedirectsMiddleware L redirectsString =
     compileLines L (split CHR 0x0A redirectsString) 0 [] []"

section \<open>The redirect matcher\<close>

text \<open>
  The loop that fills \<^verbatim>\<open>params\<close>. Reading \<^verbatim>\<open>.name\<close> of a key that does not exist
  throws; this is \<open>None\<close>. The object \<^verbatim>\<open>params\<close> is the function from property names
  to values, \<open>None\<close> being \<^verbatim>\<open>undefined\<close>.
\<close>

function bindParams ::
  "string list \<Rightarrow> string option list \<Rightarrow> nat \<Rightarrow> (string \<Rightarrow> string option)
     \<Rightarrow> (string \<Rightarrow> string option) option" where
  "bindParams ks paramValues paramIndex params =
     (if paramIndex < length paramValues
      then (case index ks paramIndex of
              None \<Rightarrow> None
            | Some name \<Rightarrow>
                bindParams ks paramValues (Suc paramIndex)
                  (params(name := paramValues ! paramIndex)))
      else Some params)"
  by pat_completeness auto
termination
  by (relation "measure (\<lambda>(ks, paramValues, paramIndex, params).
        length paramValues - paramIndex)") auto

declare bindParams.simps [simp del]

definition appendAll :: "(string \<times> string) list \<Rightarrow> URL \<Rightarrow> URL" where
  \<comment> \<open>the loop calling \<^verbatim>\<open>toUrl.searchParams.append(key, value)\<close> for every entry\<close>
  "appendAll entries u =
     fold (\<lambda>(key, val) v. v\<lparr>searchParams := searchParams v @ [(key, val)]\<rparr>) entries u"

text \<open>
  What one turn of the loop over \<^verbatim>\<open>redirects\<close> does with one rule. The variable
  \<^verbatim>\<open>toUrl\<close> of the source is the object \<^verbatim>\<open>redirect.toUrl\<close> itself, not a copy, so every
  assignment to it is an assignment to the rule: the rule is returned as the turn leaves
  it. \<open>Skipped\<close> is a \<^verbatim>\<open>continue\<close>, \<open>Thrown\<close> an exception caught by the \<^verbatim>\<open>catch\<close>
  block, \<open>Responded\<close> the call of \<^verbatim>\<open>res.redirect(307, ...)\<close> followed by \<^verbatim>\<open>return\<close>.
\<close>

datatype ('rx, 'tpl) outcome =
    Skipped
  | Thrown "('rx, 'tpl) redirect"
  | Responded string "('rx, 'tpl) redirect"

definition tryRedirect ::
  "('rx, 'tpl) lib \<Rightarrow> request \<Rightarrow> string \<Rightarrow> URL \<Rightarrow> ('rx, 'tpl) redirect
     \<Rightarrow> ('rx, 'tpl) outcome" where
  "tryRedirect L req proto reqUrl r =
     (if ''*'' \<notin> set (methods r) \<and> req_method req \<notin> set (methods r) then Skipped
      else
        (case pathMatch L (path req) (fromRe r) of
           None \<Rightarrow> Skipped
         | Some match \<Rightarrow>
             (case bindParams (keys r) (drop 1 match) 0 (\<lambda>name. None) of
                None \<Rightarrow> Thrown r
              | Some params \<Rightarrow>
                  (let u1 = (toUrl r)\<lparr>protocol := proto\<rparr>;
                       u2 = (if host u1 = ''same_host'' then u1\<lparr>host := host reqUrl\<rparr> else u1);
                       u3 = appendAll (searchParams reqUrl) u2
                   in case applyTemplate L (toPathname r) params of
                        None \<Rightarrow> Thrown (r\<lparr>toUrl := u3\<rparr>)
                      | Some p \<Rightarrow>
                          (let u4 = u3\<lparr>pathname := p\<rparr>
                           in Responded (urlToString L u4) (r\<lparr>toUrl := u4\<rparr>))))))"

text \<open>
  The loop over the rules: the response, the rules as the loop leaves them, and the
  lines written by \<^verbatim>\<open>console.error\<close> (the object printed after the message is left out).
\<close>

fun redirectLoop ::
  "('rx, 'tpl) lib \<Rightarrow> request \<Rightarrow> string \<Rightarrow> URL \<Rightarrow> ('rx, 'tpl) redirect list
     \<Rightarrow> response \<times> ('rx, 'tpl) redirect list \<times> string list" where
  "redirectLoop L req proto reqUrl [] = (Next, [], [])"
| "redirectLoop L req proto reqUrl (r # rs) =
     (case tryRedirect L req proto reqUrl r of
        Responded location r' \<Rightarrow> (Redirect 307 location, r' # rs, [])
      | Skipped \<Rightarrow>
          (case redirectLoop L req proto reqUrl rs of
             (resp, rs', log) \<Rightarrow> (resp, r # rs', log))
      | Thrown r' \<Rightarrow>
          (case redirectLoop L req proto reqUrl rs of
             (resp, rs', log) \<Rightarrow> (resp, r' # rs', ''Error processing redirects:'' # log)))"

definition resolveHost :: "request \<Rightarrow> string option" where
  \<comment> \<open>\<^verbatim>\<open>req.header('X-Forwarded-Host') ?? req.header('host')\<close>\<close>
  "resolveHost req =
     (case xForwardedHost req of Some h \<Rightarrow> Some h | None \<Rightarrow> hostHeader req)"

definition resolveProtocol :: "string \<Rightarrow> string" where
  "resolveProtocol h = (if includes_str h ''localhost'' then ''http'' else ''https'')"

definition redirectsMiddleware ::
  "('rx, 'tpl) lib \<Rightarrow> ('rx, 'tpl) redirect list \<Rightarrow> request
     \<Rightarrow> js_error + (response \<times> ('rx, 'tpl) redirect list \<times> string list)" where
  \<comment> \<open>\<open>Inl\<close>: the exception leaves the middleware; \<open>Inr\<close>: the response (\<open>Next\<close> is the
      call of \<^verbatim>\<open>next()\<close>), the rules afterwards, and the diagnostics written\<close>
  "redirectsMiddleware L redirects req =
     (case resolveHost req of
        None \<Rightarrow> Inl (UndefinedProperty ''includes'')
      | Some h \<Rightarrow>
          (let proto = resolveProtocol h in
           case newURL L (proto @ ''://'' @ h @ url req) of
             None \<Rightarrow> Inr (Next, redirects, [''Invalid URL: '' @ proto @ ''://'' @ h @ url req])
           | Some reqUrl \<Rightarrow> Inr (redirectLoop L req proto reqUrl redirects)))"

text \<open>
  The process: \<^verbatim>\<open>app.all('*', getRedirectsMiddleware())\<close> installs one closure, and every
  request runs it on the same array \<^verbatim>\<open>redirects\<close>. \<open>serve\<close> runs the middleware on the
  requests in the order they arrive and hands the rules each request leaves to the next;
  it returns what each request got and the rules at the end.
\<close>

fun serve ::
  "('rx, 'tpl) lib \<Rightarrow> ('rx, 'tpl) redirect list \<Rightarrow> request list
     \<Rightarrow> (js_error + response) list \<times> ('rx, 'tpl) redirect list" where
  "serve L redirects [] = ([], redirects)"
| "serve L redirects (req # reqs) =
     (case redirectsMiddleware L redirects req of
        Inl e \<Rightarrow>
          (case serve L redirects reqs of (out, final) \<Rightarrow> (Inl e # out, final))
      | Inr (resp, redirects', log) \<Rightarrow>
          (case serve L redirects' reqs of (out, final) \<Rightarrow> (Inr resp # out, final)))"

section \<open>The trailing-slash middleware\<close>

fun collapseSlashes :: "string \<Rightarrow> string" where
  \<comment> \<open>\<^verbatim>\<open>.replace(/\/+/g, '/')\<close>: every run of slashes becomes one slash\<close>
  "collapseSlashes (x # y # zs) =
     (if x = CHR ''/'' \<and> y = CHR ''/'' then collapseSlashes (y # zs)
      else x # collapseSlashes (y # zs))"
| "collapseSlashes xs = xs"

definition trailingSlashMiddleware :: "request \<Rightarrow> response" where
  "trailingSlashMiddleware req =
     (if endsWith (path req) ''/'' \<and> length (path req) > 1
      then (let query = drop (length (path req)) (url req);
                safepath = collapseSlashes (butlast (path req))
            in Redirect 301 (safepath @ query))
      else Next)"

section \<open>A reference instance of the two packages\<close>

text \<open>
  The theorems about the server hold for every implementation of the package
  operations. To run the server on concrete rules and requests, here is a small instance
  of them. It reads URLs of the form \<^verbatim>\<open>http(s)://host[:port][/path][?query][#fragment]\<close>
  and path patterns made of literal segments and \<^verbatim>\<open>:name\<close> segments, and rejects every
  other input. It leaves out what the examples below do not need: default ports, dot
  segments and percent-encoding in URLs, other schemes, the optional trailing slash that a
  compiled pattern accepts, and the rest of the pattern language. On the rules and
  requests used below it computes what the packages compute; in particular the packages
  reject the inputs that are rejected there (a URL without a scheme, a port that is not a
  number, a pattern with a stray \<^verbatim>\<open>*\<close>, a template parameter without a value).
\<close>

definition isDigit :: "char \<Rightarrow> bool" where
  "isDigit c = (48 \<le> (of_char c :: nat) \<and> (of_char c :: nat) \<le> 57)"

definition isUpper :: "char \<Rightarrow> bool" where
  "isUpper c = (65 \<le> (of_char c :: nat) \<and> (of_char c :: nat) \<le> 90)"

definition isLower :: "char \<Rightarrow> bool" where
  "isLower c = (97 \<le> (of_char c :: nat) \<and> (of_char c :: nat) \<le> 122)"

definition isWordChar :: "char \<Rightarrow> bool" where
  "isWordChar c = (isDigit c \<or> isUpper c \<or> isLower c \<or> c = CHR ''_'')"

definition toLower :: "char \<Rightarrow> char" where
  "toLower c = (if isUpper c then char_of ((of_char c :: nat) + 32) else c)"

fun join :: "string \<Rightarrow> string list \<Rightarrow> string" where
  "join sep [] = []"
| "join sep [x] = x"
| "join sep (x # y # ys) = x @ sep @ join sep (y # ys)"

datatype segment = Literal string | Parameter string

definition parseSegment :: "string \<Rightarrow> segment option" where
  "parseSegment s =
     (if startsWith s '':''
      then (if tl s \<noteq> [] \<and> list_all isWordChar (tl s) then Some (Parameter (tl s)) else None)
      else (if list_ex (\<lambda>c. c \<in> set ''*+?(){}:'' \<or> c = CHR 0x5C) s then None
            else Some (Literal s)))"

definition parsePath :: "string \<Rightarrow> segment list option" where
  "parsePath s = those (map parseSegment (split CHR ''/'' s))"

fun parameterNames :: "segment list \<Rightarrow> string list" where
  "parameterNames [] = []"
| "parameterNames (Literal l # ss) = parameterNames ss"
| "parameterNames (Parameter n # ss) = n # parameterNames ss"

definition ref_pathToRegexp :: "string \<Rightarrow> (segment list \<times> string list) option" where
  "ref_pathToRegexp s = map_option (\<lambda>segs. (segs, parameterNames segs)) (parsePath s)"

fun matchSegments :: "segment list \<Rightarrow> string list \<Rightarrow> string option list option" where
  "matchSegments [] [] = Some []"
| "matchSegments (Literal l # ss) (p # ps) =
     (if map toLower p = map toLower l then matchSegments ss ps else None)"
| "matchSegments (Parameter n # ss) (p # ps) =
     (if p \<noteq> [] \<and> list_all (\<lambda>c. c \<noteq> CHR ''#'' \<and> c \<noteq> CHR ''?'') p
      then map_option (\<lambda>cs. Some p # cs) (matchSegments ss ps) else None)"
| "matchSegments ss ps = None"

definition ref_pathMatch :: "string \<Rightarrow> segment list \<Rightarrow> string option list option" where
  "ref_pathMatch p segs =
     map_option (\<lambda>cs. Some p # cs) (matchSegments segs (split CHR ''/'' p))"

definition hexDigit :: "nat \<Rightarrow> char" where
  "hexDigit n = (if n < 10 then char_of (48 + n) else char_of (55 + n))"

definition encodeChar :: "char \<Rightarrow> string" where
  "encodeChar c =
     (if isWordChar c \<or> c \<in> set ''-.!~*()'' \<or> c = CHR 0x27 then [c]
      else [CHR ''%'', hexDigit ((of_char c :: nat) div 16), hexDigit ((of_char c :: nat) mod 16)])"

definition encodeURIComponent :: "string \<Rightarrow> string" where
  "encodeURIComponent s = concat (map encodeChar s)"

definition expandSegment :: "(string \<Rightarrow> string option) \<Rightarrow> segment \<Rightarrow> string option" where
  "expandSegment params seg =
     (case seg of
        Literal l \<Rightarrow> Some l
      | Parameter n \<Rightarrow>
          (case params n of
             None \<Rightarrow> None
           | Some v \<Rightarrow> if v = [] then None else Some (encodeURIComponent v)))"

definition ref_applyTemplate ::
  "segment list \<Rightarrow> (string \<Rightarrow> string option) \<Rightarrow> string option" where
  "ref_applyTemplate segs params =
     map_option (join ''/'') (those (map (expandSegment params) segs))"

definition isDelimiter :: "char \<Rightarrow> bool" where
  "isDelimiter c = (c = CHR ''/'' \<or> c = CHR ''?'' \<or> c = CHR ''#'')"

definition parseAuthority :: "string \<Rightarrow> string option" where
  "parseAuthority a =
     (let h = takeWhile (\<lambda>c. c \<noteq> CHR '':'') a;
          p = drop (Suc (length h)) a
      in if h \<noteq> [] \<and> list_all (\<lambda>c. isWordChar c \<or> c = CHR ''-'' \<or> c = CHR ''.'') h
            \<and> list_all isDigit p
         then Some (map toLower a) else None)"

definition parseQuery :: "string \<Rightarrow> (string \<times> string) list" where
  "parseQuery q =
     map (\<lambda>kv. (takeWhile (\<lambda>c. c \<noteq> CHR ''='') kv,
                drop 1 (dropWhile (\<lambda>c. c \<noteq> CHR ''='') kv)))
       (filter (\<lambda>kv. kv \<noteq> []) (split CHR ''&'' q))"

definition parseAfterScheme :: "string \<Rightarrow> string \<Rightarrow> URL option" where
  "parseAfterScheme scheme rest =
     (let a = takeWhile (\<lambda>c. \<not> isDelimiter c) rest;
          r1 = dropWhile (\<lambda>c. \<not> isDelimiter c) rest;
          p = takeWhile (\<lambda>c. c \<noteq> CHR ''?'' \<and> c \<noteq> CHR ''#'') r1;
          r2 = dropWhile (\<lambda>c. c \<noteq> CHR ''?'' \<and> c \<noteq> CHR ''#'') r1;
          q = takeWhile (\<lambda>c. c \<noteq> CHR ''#'') (if startsWith r2 ''?'' then drop 1 r2 else []);
          f = drop 1 (dropWhile (\<lambda>c. c \<noteq> CHR ''#'') r2)
      in map_option
           (\<lambda>h. \<lparr>protocol = scheme, host = h, pathname = (if p = [] then ''/'' else p),
                  searchParams = parseQuery q, hash = f\<rparr>)
           (parseAuthority a))"

definition ref_newURL :: "string \<Rightarrow> URL option" where
  "ref_newURL s =
     (if startsWith s ''https://'' then parseAfterScheme ''https'' (drop 8 s)
      else if startsWith s ''http://'' then parseAfterScheme ''http'' (drop 7 s)
      else None)"

definition ref_urlToString :: "URL \<Rightarrow> string" where
  "ref_urlToString u =
     protocol u @ ''://'' @ host u @ pathname u
       @ (if searchParams u = [] then []
          else ''?'' @ join ''&'' (map (\<lambda>(k, v). k @ ''='' @ v) (searchParams u)))
       @ (if hash u = [] then [] else ''#'' @ hash u)"

definition ref_lib :: "(segment list, segment list) lib" where
  "ref_lib =
     \<lparr>newURL = ref_newURL, pathToRegexp = ref_pathToRegexp, compileRedirectPath = parsePath,
      pathMatch = ref_pathMatch, applyTemplate = ref_applyTemplate,
      urlToString = ref_urlToString\<rparr>"

section \<open>Facts about strings\<close>

lemma endsWith_snoc: "endsWith (p @ [c]) [c]"
  by (simp add: endsWith_def)

lemma collapseSlashes_id: "\<not> includes_str p ''//'' \<Longrightarrow> collapseSlashes p = p"
proof (induction p rule: collapseSlashes.induct)
  case (1 x y zs)
  then show ?case by (auto simp: startsWith_def)
qed simp_all

lemma collapseSlashes_hd: "\<exists>ws. collapseSlashes (y # zs) = y # ws"
proof (induction zs arbitrary: y)
  case Nil
  show ?case by simp
next
  case (Cons z zs)
  from Cons.IH [of z] obtain ws where "collapseSlashes (z # zs) = z # ws" by blast
  then show ?case by auto
qed

lemma collapseSlashes_no_run: "\<not> includes_str (collapseSlashes p) ''//''"
proof (induction p rule: collapseSlashes.induct)
  case (1 x y zs)
  obtain ws where ws: "collapseSlashes (y # zs) = y # ws"
    using collapseSlashes_hd by blast
  with 1 show ?case by (auto simp: startsWith_def)
qed (simp_all add: startsWith_def)

section \<open>Facts about the matcher\<close>

lemma appendAll_eq: "appendAll entries u = u\<lparr>searchParams := searchParams u @ entries\<rparr>"
  unfolding appendAll_def
  by (induction entries arbitrary: u) (auto simp: case_prod_unfold)

lemma tryRedirect_Responded:
  assumes "tryRedirect L req proto reqUrl r = Responded location r'"
  shows "\<exists>match params p.
           (''*'' \<in> set (methods r) \<or> req_method req \<in> set (methods r))
         \<and> pathMatch L (path req) (fromRe r) = Some match
         \<and> bindParams (keys r) (drop 1 match) 0 (\<lambda>name. None) = Some params
         \<and> applyTemplate L (toPathname r) params = Some p
         \<and> toUrl r' = (toUrl r)
              \<lparr>protocol := proto,
               host := (if host (toUrl r) = ''same_host'' then host reqUrl else host (toUrl r)),
               searchParams := searchParams (toUrl r) @ searchParams reqUrl,
               pathname := p\<rparr>
         \<and> r' = r\<lparr>toUrl := toUrl r'\<rparr>
         \<and> location = urlToString L (toUrl r')"
  using assms
  by (auto simp: tryRedirect_def Let_def appendAll_eq split: if_splits option.splits)

lemma tryRedirect_responds:
  assumes "''*'' \<in> set (methods r) \<or> req_method req \<in> set (methods r)"
    and "pathMatch L (path req) (fromRe r) = Some match"
    and "bindParams (keys r) (drop 1 match) 0 (\<lambda>name. None) = Some params"
    and "applyTemplate L (toPathname r) params = Some p"
  shows "\<exists>location r'. tryRedirect L req proto reqUrl r = Responded location r'"
  using assms by (auto simp: tryRedirect_def Let_def)

lemma redirectLoop_length:
  "redirectLoop L req proto reqUrl rs = (resp, rs', log) \<Longrightarrow> length rs' = length rs"
  by (induction rs arbitrary: resp rs' log) (auto split: outcome.splits prod.splits)

lemma redirectLoop_first:
  assumes "\<forall>r \<in> set pre. \<forall>location r'.
             tryRedirect L req proto reqUrl r \<noteq> Responded location r'"
    and "tryRedirect L req proto reqUrl r = Responded location r'"
  shows "\<exists>pre' log. redirectLoop L req proto reqUrl (pre @ r # post)
                      = (Redirect 307 location, pre' @ r' # post, log)
                  \<and> length pre' = length pre"
  using assms
proof (induction pre)
  case Nil
  then show ?case by simp
next
  case (Cons a pre)
  then obtain pre' log where
    IH: "redirectLoop L req proto reqUrl (pre @ r # post)
           = (Redirect 307 location, pre' @ r' # post, log)"
      "length pre' = length pre"
    by auto
  from Cons.prems(1)
  have na: "\<forall>location r'. tryRedirect L req proto reqUrl a \<noteq> Responded location r'"
    by simp
  show ?case
  proof (cases "tryRedirect L req proto reqUrl a")
    case Skipped
    with IH have "redirectLoop L req proto reqUrl ((a # pre) @ r # post)
        = (Redirect 307 location, (a # pre') @ r' # post, log)" by simp
    with IH(2) show ?thesis by (metis length_Cons)
  next
    case (Thrown a')
    with IH have "redirectLoop L req proto reqUrl ((a # pre) @ r # post)
        = (Redirect 307 location, (a' # pre') @ r' # post,
           ''Error processing redirects:'' # log)" by simp
    with IH(2) show ?thesis by (metis length_Cons)
  next
    case (Responded l a')
    with na show ?thesis by blast
  qed
qed

lemma redirectLoop_none:
  assumes "\<forall>r \<in> set rs. \<forall>location r'.
             tryRedirect L req proto reqUrl r \<noteq> Responded location r'"
  shows "\<exists>rs' log. redirectLoop L req proto reqUrl rs = (Next, rs', log)"
  using assms
proof (induction rs)
  case Nil
  then show ?case by simp
next
  case (Cons a rs)
  then obtain rs' log where IH: "redirectLoop L req proto reqUrl rs = (Next, rs', log)"
    by auto
  from Cons.prems
  have na: "\<forall>location r'. tryRedirect L req proto reqUrl a \<noteq> Responded location r'"
    by simp
  show ?case
    using IH na by (cases "tryRedirect L req proto reqUrl a") auto
qed

lemma redirectLoop_Redirect:
  assumes "redirectLoop L req proto reqUrl rs = (Redirect code location, rs', log)"
  shows "\<exists>i r'. i < length rs \<and> code = 307
            \<and> tryRedirect L req proto reqUrl (rs ! i) = Responded location r'
            \<and> rs' ! i = r' \<and> length rs' = length rs"
  using assms
proof (induction rs arbitrary: rs' log)
  case Nil
  then show ?case by simp
next
  case (Cons a rs)
  show ?case
  proof (cases "tryRedirect L req proto reqUrl a")
    case Skipped
    with Cons.prems obtain rs0 where
      r: "redirectLoop L req proto reqUrl rs = (Redirect code location, rs0, log)"
        "rs' = a # rs0"
      by (auto split: prod.splits)
    from Cons.IH [OF r(1)] obtain i r' where
      "i < length rs" "code = 307"
      "tryRedirect L req proto reqUrl (rs ! i) = Responded location r'"
      "rs0 ! i = r'" "length rs0 = length rs" by blast
    with r(2) show ?thesis by (intro exI [of _ "Suc i"] exI [of _ r']) simp
  next
    case (Thrown a')
    with Cons.prems obtain rs0 log0 where
      r: "redirectLoop L req proto reqUrl rs = (Redirect code location, rs0, log0)"
        "rs' = a' # rs0"
      by (auto split: prod.splits)
    from Cons.IH [OF r(1)] obtain i r' where
      "i < length rs" "code = 307"
      "tryRedirect L req proto reqUrl (rs ! i) = Responded location r'"
      "rs0 ! i = r'" "length rs0 = length rs" by blast
    with r(2) show ?thesis by (intro exI [of _ "Suc i"] exI [of _ r']) simp
  next
    case (Responded l a')
    with Cons.prems show ?thesis by (intro exI [of _ 0] exI [of _ a']) auto
  qed
qed

lemma redirectsMiddleware_with_host:
  assumes "resolveHost req = Some h"
  shows "\<exists>resp redirects' log.
           redirectsMiddleware L redirects req = Inr (resp, redirects', log)"
  using assms
  by (cases "newURL L (resolveProtocol h @ ''://'' @ h @ url req)";
      cases "redirectLoop L req (resolveProtocol h)
               (the (newURL L (resolveProtocol h @ ''://'' @ h @ url req))) redirects")
     (auto simp: redirectsMiddleware_def Let_def)

lemma tryRedirect_Responded_iff:
  "tryRedirect L req proto reqUrl r = Responded location r' \<longleftrightarrow>
     (''*'' \<in> set (methods r) \<or> req_method req \<in> set (methods r))
     \<and> (\<exists>match params p.
           pathMatch L (path req) (fromRe r) = Some match
         \<and> bindParams (keys r) (drop 1 match) 0 (\<lambda>name. None) = Some params
         \<and> applyTemplate L (toPathname r) params = Some p
         \<and> r' = r\<lparr>toUrl := (toUrl r)
                  \<lparr>protocol := proto,
                   host := (if host (toUrl r) = ''same_host'' then host reqUrl
                            else host (toUrl r)),
                   searchParams := searchParams (toUrl r) @ searchParams reqUrl,
                   pathname := p\<rparr>\<rparr>
         \<and> location = urlToString L (toUrl r'))"
  by (auto simp: tryRedirect_def Let_def appendAll_eq split: if_splits option.splits)

lemma redirectsMiddleware_bad_url:
  assumes "resolveHost req = Some h"
    and "newURL L (resolveProtocol h @ ''://'' @ h @ url req) = None"
  shows "redirectsMiddleware L redirects req
           = Inr (Next, redirects, [''Invalid URL: '' @ resolveProtocol h @ ''://'' @ h @ url req])"
  using assms by (simp add: redirectsMiddleware_def Let_def)

lemma resolveProtocol_cases:
  "resolveProtocol h = ''http'' \<longleftrightarrow> includes_str h ''localhost''"
  "resolveProtocol h = ''https'' \<longleftrightarrow> \<not> includes_str h ''localhost''"
  by (simp_all add: resolveProtocol_def)

lemma tryRedirect_same_host:
  assumes "tryRedirect L req proto reqUrl r = Responded location r'"
    and "host (toUrl r) = ''same_host''"
  shows "host (toUrl r') = host reqUrl \<and> protocol (toUrl r') = proto"
  using tryRedirect_Responded [OF assms(1)] assms(2) by auto

lemma tryRedirect_explicit_host:
  assumes "tryRedirect L req proto reqUrl r = Responded location r'"
    and "host (toUrl r) \<noteq> ''same_host''"
  shows "host (toUrl r') = host (toUrl r) \<and> protocol (toUrl r') = proto"
  using tryRedirect_Responded [OF assms(1)] assms(2) by auto

lemma bindParams_single:
  "\<exists>params. bindParams [k] [v] 0 (\<lambda>name. None) = Some params \<and> params k = v"
  by (simp add: bindParams.simps index_def)

lemma compile_old_new:
  assumes "pathToRegexp L ''/old/:id'' = Some (re, ks)"
    and "newURL L ''https://same_host/new/:id'' = Some u"
    and "compileRedirectPath L (pathname u) = Some tpl"
  shows "getRedirectsMiddleware L ''/old/:id /new/:id''
           = Inr ([\<lparr>methods = [''*''], fromRe = re, keys = ks, toPathname = tpl, toUrl = u\<rparr>], [])"
proof -
  have l: "split CHR 0x0A ''/old/:id /new/:id'' = [''/old/:id /new/:id'']"
    by code_simp
  have t: "trim ''/old/:id /new/:id'' = ''/old/:id /new/:id''"
    by code_simp
  have k: "tokens ''/old/:id /new/:id'' = [''/old/:id'', ''/new/:id'']"
    by code_simp
  have r: "resolveTokens ''/old/:id'' (Some ''/new/:id'') None
             = ([''*''], Some ''/old/:id'', Some ''/new/:id'')"
    by code_simp
  have i: "\<not> includes_str ''/new/:id'' ''//''"
    by code_simp
  show ?thesis
    using assms
    by (simp add: getRedirectsMiddleware_def l t k r i startsWith_def index_def falsy_def
        compileRedirect_def)
qed

section \<open>The shared rules are assigned to by every request (C1)\<close>

text \<open>
  C1 does not hold of the code: the matcher assigns to the destination URL object of the
  rule itself. The rules file \<^verbatim>\<open>/old /new\<close> compiles to one rule whose destination has
  the host \<^verbatim>\<open>same_host\<close> and no query. After the single request \<^verbatim>\<open>GET /old?ref=abc\<close> for
  the host \<^verbatim>\<open>kentcdodds.com\<close>, the rule kept by the process has the host
  \<^verbatim>\<open>kentcdodds.com\<close> and the query \<^verbatim>\<open>ref=abc\<close>.
\<close>

theorem shared_rule_mutated:
  "getRedirectsMiddleware ref_lib ''/old /new''
   = Inr ([\<lparr>methods = [''*''], fromRe = [Literal [], Literal ''old''],
       keys = [], toPathname = [Literal [], Literal ''new''],
       toUrl = \<lparr>protocol = ''https'', host = ''same_host'', pathname = ''/new'',
                 searchParams = [], hash = []\<rparr>\<rparr>], [])
   \<and> serve ref_lib
       [\<lparr>methods = [''*''], fromRe = [Literal [], Literal ''old''],
       keys = [], toPathname = [Literal [], Literal ''new''],
       toUrl = \<lparr>protocol = ''https'', host = ''same_host'', pathname = ''/new'',
                 searchParams = [], hash = []\<rparr>\<rparr>]
       [\<lparr>req_method = ''GET'', url = ''/old?ref=abc'', path = ''/old'',
       xForwardedHost = None, hostHeader = Some ''kentcdodds.com''\<rparr>]
     = ([Inr (Redirect 307 ''https://kentcdodds.com/new?ref=abc'')],
        [\<lparr>methods = [''*''], fromRe = [Literal [], Literal ''old''],
       keys = [], toPathname = [Literal [], Literal ''new''],
       toUrl = \<lparr>protocol = ''https'', host = ''kentcdodds.com'', pathname = ''/new'',
                 searchParams = [(''ref'', ''abc'')], hash = []\<rparr>\<rparr>])
   \<and> toUrl
       \<lparr>methods = [''*''], fromRe = [Literal [], Literal ''old''],
       keys = [], toPathname = [Literal [], Literal ''new''],
       toUrl = \<lparr>protocol = ''https'', host = ''kentcdodds.com'', pathname = ''/new'',
                 searchParams = [(''ref'', ''abc'')], hash = []\<rparr>\<rparr>
     \<noteq> toUrl
       \<lparr>methods = [''*''], fromRe = [Literal [], Literal ''old''],
       keys = [], toPathname = [Literal [], Literal ''new''],
       toUrl = \<lparr>protocol = ''https'', host = ''same_host'', pathname = ''/new'',
                 searchParams = [], hash = []\<rparr>\<rparr>"
  by code_simp

section \<open>A malformed destination URL stops the compilation (C2)\<close>

text \<open>
  C2 does not hold of the code: \<^verbatim>\<open>new URL(to)\<close> is evaluated before the \<^verbatim>\<open>try\<close> block.
  In a rules file of three lines whose second line is \<^verbatim>\<open>/old //example.com/new\<close> the
  destination contains \<^verbatim>\<open>//\<close>, so it is parsed as an absolute URL; it has no scheme, the
  constructor throws, and the exception leaves \<^verbatim>\<open>getRedirectsMiddleware\<close>: no rule is
  returned, not even the one of the first line.
\<close>

theorem bad_url_aborts_compilation:
  "getRedirectsMiddleware ref_lib
     (''/a /b'' @ [CHR 0x0A] @ ''/old //example.com/new'' @ [CHR 0x0A] @ ''/c /d'')
   = Inl (InvalidURL ''//example.com/new'')"
  by code_simp

section \<open>A request without host headers (C3)\<close>

text \<open>
  C3 does not hold of the code: for a request with neither an \<^verbatim>\<open>X-Forwarded-Host\<close> nor a
  \<^verbatim>\<open>Host\<close> header, \<^verbatim>\<open>host\<close> is \<^verbatim>\<open>undefined\<close> and \<^verbatim>\<open>host.includes\<close> throws outside every
  \<^verbatim>\<open>try\<close> block, whatever the rules, the method, the path and the URL of the request.
\<close>

theorem missing_host_raises:
  "redirectsMiddleware L redirects
     \<lparr>req_method = m, url = u, path = p, xForwardedHost = None, hostHeader = None\<rparr>
   = Inl (UndefinedProperty ''includes'')"
  by (simp add: redirectsMiddleware_def resolveHost_def)

section \<open>Line numbers in the diagnostics (C4)\<close>

text \<open>
  C4 does not hold of the code: the diagnostic for a line without \<^verbatim>\<open>from\<close> or \<^verbatim>\<open>to\<close> prints
  \<^verbatim>\<open>lineNumber + 1\<close>, the diagnostic for a line that fails to compile prints
  \<^verbatim>\<open>lineNumber\<close>. In the file below the first line has no destination and the second has
  a pattern that does not compile: both diagnostics say line 1. Both lines are dropped and
  the third line compiles.
\<close>

theorem compile_diagnostic_line_number:
  "getRedirectsMiddleware ref_lib
     (''/only-from'' @ [CHR 0x0A] @ ''/blog/* /new'' @ [CHR 0x0A] @ ''/a /b'')
   = Inr ([\<lparr>methods = [''*''], fromRe = [Literal [], Literal ''a''],
          keys = [], toPathname = [Literal [], Literal ''b''],
          toUrl = \<lparr>protocol = ''https'', host = ''same_host'', pathname = ''/b'',
                    searchParams = [], hash = []\<rparr>\<rparr>],
          [''Invalid redirect on line 1: '' @ quoted ''/only-from'',
           ''Failed to parse redirect on line 1: '' @ quoted ''/blog/* /new''])"
  by code_simp

section \<open>Query parameters of the request (C5)\<close>

text \<open>
  C5: whenever the matcher answers a request with a redirect, the rule that matched is
  some rule \<open>i\<close> of the list, the location is the serialisation of that rule's destination
  URL, and the query parameters of this URL are the parameters the destination had before
  the request, in their order, followed by all the parameters of the request URL, in their
  order: none of either is dropped or replaced, whatever their names.
\<close>

theorem query_parameters_appended:
  assumes "redirectsMiddleware L redirects req = Inr (Redirect code location, redirects', log)"
  shows "\<exists>h reqUrl i.
           resolveHost req = Some h
         \<and> newURL L (resolveProtocol h @ ''://'' @ h @ url req) = Some reqUrl
         \<and> i < length redirects \<and> length redirects' = length redirects
         \<and> pathMatch L (path req) (fromRe (redirects ! i)) \<noteq> None
         \<and> location = urlToString L (toUrl (redirects' ! i))
         \<and> searchParams (toUrl (redirects' ! i))
             = searchParams (toUrl (redirects ! i)) @ searchParams reqUrl"
proof -
  from assms obtain h where h: "resolveHost req = Some h"
    by (auto simp: redirectsMiddleware_def split: option.splits)
  with assms obtain reqUrl where
    u: "newURL L (resolveProtocol h @ ''://'' @ h @ url req) = Some reqUrl"
    by (auto simp: redirectsMiddleware_def Let_def split: option.splits)
  with assms h have
    "redirectLoop L req (resolveProtocol h) reqUrl redirects
       = (Redirect code location, redirects', log)"
    by (simp add: redirectsMiddleware_def Let_def)
  from redirectLoop_Redirect [OF this] obtain i r' where
    i: "i < length redirects"
      "tryRedirect L req (resolveProtocol h) reqUrl (redirects ! i) = Responded location r'"
      "redirects' ! i = r'" "length redirects' = length redirects"
    by blast
  from tryRedirect_Responded [OF i(2)] i(3)
  have "pathMatch L (path req) (fromRe (redirects ! i)) \<noteq> None"
    "location = urlToString L (toUrl (redirects' ! i))"
    "searchParams (toUrl (redirects' ! i))
       = searchParams (toUrl (redirects ! i)) @ searchParams reqUrl"
    by auto
  with h u i show ?thesis by blast
qed

text \<open>
  C5 on the rule \<^verbatim>\<open>/old/:id /new/:id?utm=1\<close> and the request
  \<^verbatim>\<open>/old/42?ref=abc&utm=2\<close>: the location carries \<^verbatim>\<open>utm=1&ref=abc&utm=2\<close>.
\<close>

theorem query_parameters_appended_witness:
  "redirectsMiddleware ref_lib
     [\<lparr>methods = [''*''], fromRe = [Literal [], Literal ''old'', Parameter ''id''],
       keys = [''id''], toPathname = [Literal [], Literal ''new'', Parameter ''id''],
       toUrl = \<lparr>protocol = ''https'', host = ''same_host'', pathname = ''/new/:id'',
                searchParams = [(''utm'', ''1'')], hash = []\<rparr>\<rparr>]
     \<lparr>req_method = ''GET'', url = ''/old/42?ref=abc&utm=2'', path = ''/old/42'',
      xForwardedHost = None, hostHeader = Some ''kentcdodds.com''\<rparr>
   = Inr (Redirect 307 ''https://kentcdodds.com/new/42?utm=1&ref=abc&utm=2'',
          [\<lparr>methods = [''*''], fromRe = [Literal [], Literal ''old'', Parameter ''id''],
            keys = [''id''], toPathname = [Literal [], Literal ''new'', Parameter ''id''],
            toUrl = \<lparr>protocol = ''https'', host = ''kentcdodds.com'', pathname = ''/new/42'',
                     searchParams = [(''utm'', ''1''), (''ref'', ''abc''), (''utm'', ''2'')],
                     hash = []\<rparr>\<rparr>],
          [])
   \<and> (\<exists>reqUrl.
         newURL ref_lib ''https://kentcdodds.com/old/42?ref=abc&utm=2'' = Some reqUrl
       \<and> [(''utm'', ''1''), (''ref'', ''abc''), (''utm'', ''2'')]
           = [(''utm'', ''1'')] @ searchParams reqUrl)"
proof -
  let ?req = "\<lparr>req_method = ''GET'', url = ''/old/42?ref=abc&utm=2'', path = ''/old/42'',
      xForwardedHost = None, hostHeader = Some ''kentcdodds.com''\<rparr>"
  let ?r = "\<lparr>methods = [''*''], fromRe = [Literal [], Literal ''old'', Parameter ''id''],
       keys = [''id''], toPathname = [Literal [], Literal ''new'', Parameter ''id''],
       toUrl = \<lparr>protocol = ''https'', host = ''same_host'', pathname = ''/new/:id'',
                searchParams = [(''utm'', ''1'')], hash = []\<rparr>\<rparr>"
  let ?r' = "\<lparr>methods = [''*''], fromRe = [Literal [], Literal ''old'', Parameter ''id''],
            keys = [''id''], toPathname = [Literal [], Literal ''new'', Parameter ''id''],
            toUrl = \<lparr>protocol = ''https'', host = ''kentcdodds.com'', pathname = ''/new/42'',
                     searchParams = [(''utm'', ''1''), (''ref'', ''abc''), (''utm'', ''2'')],
                     hash = []\<rparr>\<rparr>"
  have ev: "redirectsMiddleware ref_lib [?r] ?req
      = Inr (Redirect 307 ''https://kentcdodds.com/new/42?utm=1&ref=abc&utm=2'', [?r'], [])"
    by code_simp
  have p: "resolveProtocol ''kentcdodds.com'' = ''https''"
    by code_simp
  from query_parameters_appended [OF ev] obtain h reqUrl i where
    A: "resolveHost ?req = Some h"
    and B: "newURL ref_lib (resolveProtocol h @ ''://'' @ h @ url ?req) = Some reqUrl"
    and C: "i < length [?r]"
    and D: "searchParams (toUrl ([?r'] ! i))
              = searchParams (toUrl ([?r] ! i)) @ searchParams reqUrl"
    by blast
  from A have h: "h = ''kentcdodds.com''"
    by (simp add: resolveHost_def)
  from C have i: "i = 0"
    by simp
  from B have "newURL ref_lib ''https://kentcdodds.com/old/42?ref=abc&utm=2'' = Some reqUrl"
    unfolding h p by simp
  moreover from D have "[(''utm'', ''1''), (''ref'', ''abc''), (''utm'', ''2'')]
           = [(''utm'', ''1'')] @ searchParams reqUrl"
    unfolding i by simp
  ultimately show ?thesis
    using ev by blast
qed

section \<open>The host of a path-only destination (C6)\<close>

text \<open>
  C6 does not hold of the code, for the reason C1 does not: the first request that a
  path-only rule answers replaces the host \<^verbatim>\<open>same_host\<close> in the rule itself, so the test
  \<^verbatim>\<open>toUrl.host === 'same_host'\<close> fails for every later request. With the rules file
  \<^verbatim>\<open>/old /new\<close>, a request \<^verbatim>\<open>GET /old\<close> for the host \<^verbatim>\<open>kentcdodds.com\<close> followed by the
  same request for the host \<^verbatim>\<open>localhost:3000\<close>: the second is redirected to
  \<^verbatim>\<open>http://kentcdodds.com/new\<close>, not to \<^verbatim>\<open>http://localhost:3000/new\<close>.
\<close>

theorem same_host_replaced_once:
  "getRedirectsMiddleware ref_lib ''/old /new''
   = Inr ([\<lparr>methods = [''*''], fromRe = [Literal [], Literal ''old''],
       keys = [], toPathname = [Literal [], Literal ''new''],
       toUrl = \<lparr>protocol = ''https'', host = ''same_host'', pathname = ''/new'',
                 searchParams = [], hash = []\<rparr>\<rparr>], [])
   \<and> fst (serve ref_lib
         [\<lparr>methods = [''*''], fromRe = [Literal [], Literal ''old''],
       keys = [], toPathname = [Literal [], Literal ''new''],
       toUrl = \<lparr>protocol = ''https'', host = ''same_host'', pathname = ''/new'',
                 searchParams = [], hash = []\<rparr>\<rparr>]
         [\<lparr>req_method = ''GET'', url = ''/old'', path = ''/old'',
         xForwardedHost = None, hostHeader = Some ''kentcdodds.com''\<rparr>,
          \<lparr>req_method = ''GET'', url = ''/old'', path = ''/old'',
         xForwardedHost = None, hostHeader = Some ''localhost:3000''\<rparr>])
     = [Inr (Redirect 307 ''https://kentcdodds.com/new''),
        Inr (Redirect 307 ''http://kentcdodds.com/new'')]
   \<and> resolveHost
         \<lparr>req_method = ''GET'', url = ''/old'', path = ''/old'',
         xForwardedHost = None, hostHeader = Some ''localhost:3000''\<rparr>
     = Some ''localhost:3000''"
  by code_simp

section \<open>The first rule that answers wins (C7)\<close>

text \<open>
  C7, as stated, fails: a rule whose method set and path both match does not always end
  the evaluation. With the rules \<^verbatim>\<open>/old/:id /new/:slug\<close> and \<^verbatim>\<open>/old/:id /other/:id\<close>,
  in this order, the request \<^verbatim>\<open>GET /old/42\<close> matches the first rule by method and by
  path, but expanding \<^verbatim>\<open>/new/:slug\<close> throws (no value for \<^verbatim>\<open>slug\<close>); the \<^verbatim>\<open>catch\<close> block
  logs the error, the loop goes on, and the redirect comes from the second rule.
\<close>

theorem first_match_counterexample:
  "getRedirectsMiddleware ref_lib
     (''/old/:id /new/:slug'' @ [CHR 0x0A] @ ''/old/:id /other/:id'')
   = Inr ([\<lparr>methods = [''*''], fromRe = [Literal [], Literal ''old'', Parameter ''id''],
     keys = [''id''], toPathname = [Literal [], Literal ''new'', Parameter ''slug''],
     toUrl = \<lparr>protocol = ''https'', host = ''same_host'', pathname = ''/new/:slug'',
               searchParams = [], hash = []\<rparr>\<rparr>,
           \<lparr>methods = [''*''], fromRe = [Literal [], Literal ''old'', Parameter ''id''],
     keys = [''id''], toPathname = [Literal [], Literal ''other'', Parameter ''id''],
     toUrl = \<lparr>protocol = ''https'', host = ''same_host'', pathname = ''/other/:id'',
               searchParams = [], hash = []\<rparr>\<rparr>], [])
   \<and> pathMatch ref_lib ''/old/42'' [Literal [], Literal ''old'', Parameter ''id'']
       = Some [Some ''/old/42'', Some ''42'']
   \<and> redirectsMiddleware ref_lib
       [\<lparr>methods = [''*''], fromRe = [Literal [], Literal ''old'', Parameter ''id''],
     keys = [''id''], toPathname = [Literal [], Literal ''new'', Parameter ''slug''],
     toUrl = \<lparr>protocol = ''https'', host = ''same_host'', pathname = ''/new/:slug'',
               searchParams = [], hash = []\<rparr>\<rparr>,
        \<lparr>methods = [''*''], fromRe = [Literal [], Literal ''old'', Parameter ''id''],
     keys = [''id''], toPathname = [Literal [], Literal ''other'', Parameter ''id''],
     toUrl = \<lparr>protocol = ''https'', host = ''same_host'', pathname = ''/other/:id'',
               searchParams = [], hash = []\<rparr>\<rparr>]
       \<lparr>req_method = ''GET'', url = ''/old/42'', path = ''/old/42'',
     xForwardedHost = None, hostHeader = Some ''kentcdodds.com''\<rparr>
     = Inr (Redirect 307 ''https://kentcdodds.com/other/42'',
            [\<lparr>methods = [''*''], fromRe = [Literal [], Literal ''old'', Parameter ''id''],
     keys = [''id''], toPathname = [Literal [], Literal ''new'', Parameter ''slug''],
     toUrl = \<lparr>protocol = ''https'', host = ''kentcdodds.com'', pathname = ''/new/:slug'',
               searchParams = [], hash = []\<rparr>\<rparr>,
             \<lparr>methods = [''*''], fromRe = [Literal [], Literal ''old'', Parameter ''id''],
     keys = [''id''], toPathname = [Literal [], Literal ''other'', Parameter ''id''],
     toUrl = \<lparr>protocol = ''https'', host = ''kentcdodds.com'', pathname = ''/other/42'',
               searchParams = [], hash = []\<rparr>\<rparr>],
            [''Error processing redirects:''])"
  by code_simp

text \<open>
  C7, amended: for a request whose host header is present and whose URL parses, the rules
  are tried in declaration order. A rule is passed over when its method set or its path
  does not match, and also when binding the captured values or expanding the destination
  template throws (the exception is caught and logged). The first rule that is not passed
  over ends the evaluation: the response is one redirect with status 307 to that rule's
  reconstructed destination URL, and the rules after it are left as they were. If every
  rule is passed over, the request passes through. A rule answers exactly when its
  methods contain \<^verbatim>\<open>*\<close> or the request method, the path matches, the captured values
  bind to the keys, and the template expands.
\<close>

theorem first_responding_rule_wins:
  assumes "resolveHost req = Some h"
    and "newURL L (resolveProtocol h @ ''://'' @ h @ url req) = Some reqUrl"
  shows "((\<forall>r \<in> set pre. \<forall>location r'.
             tryRedirect L req (resolveProtocol h) reqUrl r \<noteq> Responded location r')
          \<and> tryRedirect L req (resolveProtocol h) reqUrl r = Responded location r'
          \<longrightarrow> (\<exists>pre' log.
                 redirectsMiddleware L (pre @ r # post) req
                   = Inr (Redirect 307 location, pre' @ r' # post, log)
               \<and> length pre' = length pre))
       \<and> ((\<forall>r \<in> set rs. \<forall>location r'.
              tryRedirect L req (resolveProtocol h) reqUrl r \<noteq> Responded location r')
          \<longrightarrow> (\<exists>rs' log. redirectsMiddleware L rs req = Inr (Next, rs', log)))
       \<and> (tryRedirect L req (resolveProtocol h) reqUrl r = Responded location r' \<longleftrightarrow>
            (''*'' \<in> set (methods r) \<or> req_method req \<in> set (methods r))
          \<and> (\<exists>match params p.
                pathMatch L (path req) (fromRe r) = Some match
              \<and> bindParams (keys r) (drop 1 match) 0 (\<lambda>name. None) = Some params
              \<and> applyTemplate L (toPathname r) params = Some p
              \<and> r' = r\<lparr>toUrl := (toUrl r)
                       \<lparr>protocol := resolveProtocol h,
                        host := (if host (toUrl r) = ''same_host'' then host reqUrl
                                 else host (toUrl r)),
                        searchParams := searchParams (toUrl r) @ searchParams reqUrl,
                        pathname := p\<rparr>\<rparr>
              \<and> location = urlToString L (toUrl r')))"
proof -
  have mw: "redirectsMiddleware L xs req
              = Inr (redirectLoop L req (resolveProtocol h) reqUrl xs)" for xs
    using assms by (simp add: redirectsMiddleware_def Let_def)
  show ?thesis
    unfolding mw
    using redirectLoop_first [of pre L req "resolveProtocol h" reqUrl r location r' post]
      redirectLoop_none [of rs L req "resolveProtocol h" reqUrl]
      tryRedirect_Responded_iff [of L req "resolveProtocol h" reqUrl r location r']
    by simp
qed

text \<open>
  C7, amended, on three rules for \<^verbatim>\<open>/old/:id\<close>, with destinations \<^verbatim>\<open>/new/:slug\<close>,
  \<^verbatim>\<open>/other/:id\<close> and \<^verbatim>\<open>/third/:id\<close>: for \<^verbatim>\<open>GET /old/42\<close> the first rule throws, the
  second answers, the third is left as it was; for \<^verbatim>\<open>GET /about\<close> no rule answers and the
  request passes through.
\<close>

theorem first_responding_rule_wins_witness:
  "tryRedirect ref_lib
     \<lparr>req_method = ''GET'', url = ''/old/42'', path = ''/old/42'',
     xForwardedHost = None, hostHeader = Some ''kentcdodds.com''\<rparr>
     ''https''
     \<lparr>protocol = ''https'', host = ''kentcdodds.com'', pathname = ''/old/42'',
        searchParams = [], hash = []\<rparr>
     \<lparr>methods = [''*''], fromRe = [Literal [], Literal ''old'', Parameter ''id''],
     keys = [''id''], toPathname = [Literal [], Literal ''new'', Parameter ''slug''],
     toUrl = \<lparr>protocol = ''https'', host = ''same_host'', pathname = ''/new/:slug'',
               searchParams = [], hash = []\<rparr>\<rparr>
   = Thrown
     \<lparr>methods = [''*''], fromRe = [Literal [], Literal ''old'', Parameter ''id''],
     keys = [''id''], toPathname = [Literal [], Literal ''new'', Parameter ''slug''],
     toUrl = \<lparr>protocol = ''https'', host = ''kentcdodds.com'', pathname = ''/new/:slug'',
               searchParams = [], hash = []\<rparr>\<rparr>
   \<and> tryRedirect ref_lib
     \<lparr>req_method = ''GET'', url = ''/old/42'', path = ''/old/42'',
     xForwardedHost = None, hostHeader = Some ''kentcdodds.com''\<rparr>
     ''https''
     \<lparr>protocol = ''https'', host = ''kentcdodds.com'', pathname = ''/old/42'',
        searchParams = [], hash = []\<rparr>
     \<lparr>methods = [''*''], fromRe = [Literal [], Literal ''old'', Parameter ''id''],
     keys = [''id''], toPathname = [Literal [], Literal ''other'', Parameter ''id''],
     toUrl = \<lparr>protocol = ''https'', host = ''same_host'', pathname = ''/other/:id'',
               searchParams = [], hash = []\<rparr>\<rparr>
   = Responded ''https://kentcdodds.com/other/42''
     \<lparr>methods = [''*''], fromRe = [Literal [], Literal ''old'', Parameter ''id''],
     keys = [''id''], toPathname = [Literal [], Literal ''other'', Parameter ''id''],
     toUrl = \<lparr>protocol = ''https'', host = ''kentcdodds.com'', pathname = ''/other/42'',
               searchParams = [], hash = []\<rparr>\<rparr>
   \<and> (\<exists>pre' log.
        redirectsMiddleware ref_lib
          ([\<lparr>methods = [''*''], fromRe = [Literal [], Literal ''old'', Parameter ''id''],
     keys = [''id''], toPathname = [Literal [], Literal ''new'', Parameter ''slug''],
     toUrl = \<lparr>protocol = ''https'', host = ''same_host'', pathname = ''/new/:slug'',
               searchParams = [], hash = []\<rparr>\<rparr>]
           @ \<lparr>methods = [''*''], fromRe = [Literal [], Literal ''old'', Parameter ''id''],
     keys = [''id''], toPathname = [Literal [], Literal ''other'', Parameter ''id''],
     toUrl = \<lparr>protocol = ''https'', host = ''same_host'', pathname = ''/other/:id'',
               searchParams = [], hash = []\<rparr>\<rparr>
           # [\<lparr>methods = [''*''], fromRe = [Literal [], Literal ''old'', Parameter ''id''],
     keys = [''id''], toPathname = [Literal [], Literal ''third'', Parameter ''id''],
     toUrl = \<lparr>protocol = ''https'', host = ''same_host'', pathname = ''/third/:id'',
               searchParams = [], hash = []\<rparr>\<rparr>])
          \<lparr>req_method = ''GET'', url = ''/old/42'', path = ''/old/42'',
     xForwardedHost = None, hostHeader = Some ''kentcdodds.com''\<rparr>
        = Inr (Redirect 307 ''https://kentcdodds.com/other/42'',
               pre'
               @ \<lparr>methods = [''*''], fromRe = [Literal [], Literal ''old'', Parameter ''id''],
     keys = [''id''], toPathname = [Literal [], Literal ''other'', Parameter ''id''],
     toUrl = \<lparr>protocol = ''https'', host = ''kentcdodds.com'', pathname = ''/other/42'',
               searchParams = [], hash = []\<rparr>\<rparr>
               # [\<lparr>methods = [''*''], fromRe = [Literal [], Literal ''old'', Parameter ''id''],
     keys = [''id''], toPathname = [Literal [], Literal ''third'', Parameter ''id''],
     toUrl = \<lparr>protocol = ''https'', host = ''same_host'', pathname = ''/third/:id'',
               searchParams = [], hash = []\<rparr>\<rparr>],
               log)
        \<and> length pre' = 1)
   \<and> (\<exists>rs' log.
        redirectsMiddleware ref_lib
          [\<lparr>methods = [''*''], fromRe = [Literal [], Literal ''old'', Parameter ''id''],
     keys = [''id''], toPathname = [Literal [], Literal ''new'', Parameter ''slug''],
     toUrl = \<lparr>protocol = ''https'', host = ''same_host'', pathname = ''/new/:slug'',
               searchParams = [], hash = []\<rparr>\<rparr>,
           \<lparr>methods = [''*''], fromRe = [Literal [], Literal ''old'', Parameter ''id''],
     keys = [''id''], toPathname = [Literal [], Literal ''other'', Parameter ''id''],
     toUrl = \<lparr>protocol = ''https'', host = ''same_host'', pathname = ''/other/:id'',
               searchParams = [], hash = []\<rparr>\<rparr>,
           \<lparr>methods = [''*''], fromRe = [Literal [], Literal ''old'', Parameter ''id''],
     keys = [''id''], toPathname = [Literal [], Literal ''third'', Parameter ''id''],
     toUrl = \<lparr>protocol = ''https'', host = ''same_host'', pathname = ''/third/:id'',
               searchParams = [], hash = []\<rparr>\<rparr>]
          \<lparr>req_method = ''GET'', url = ''/about'', path = ''/about'',
     xForwardedHost = None, hostHeader = Some ''kentcdodds.com''\<rparr>
        = Inr (Next, rs', log))"
proof -
  let ?req = "\<lparr>req_method = ''GET'', url = ''/old/42'', path = ''/old/42'',
     xForwardedHost = None, hostHeader = Some ''kentcdodds.com''\<rparr>"
  let ?about = "\<lparr>req_method = ''GET'', url = ''/about'', path = ''/about'',
     xForwardedHost = None, hostHeader = Some ''kentcdodds.com''\<rparr>"
  let ?reqUrl = "\<lparr>protocol = ''https'', host = ''kentcdodds.com'', pathname = ''/old/42'',
        searchParams = [], hash = []\<rparr>"
  let ?aboutUrl = "\<lparr>protocol = ''https'', host = ''kentcdodds.com'', pathname = ''/about'',
        searchParams = [], hash = []\<rparr>"
  let ?r1 = "\<lparr>methods = [''*''], fromRe = [Literal [], Literal ''old'', Parameter ''id''],
     keys = [''id''], toPathname = [Literal [], Literal ''new'', Parameter ''slug''],
     toUrl = \<lparr>protocol = ''https'', host = ''same_host'', pathname = ''/new/:slug'',
               searchParams = [], hash = []\<rparr>\<rparr>"
  let ?r2 = "\<lparr>methods = [''*''], fromRe = [Literal [], Literal ''old'', Parameter ''id''],
     keys = [''id''], toPathname = [Literal [], Literal ''other'', Parameter ''id''],
     toUrl = \<lparr>protocol = ''https'', host = ''same_host'', pathname = ''/other/:id'',
               searchParams = [], hash = []\<rparr>\<rparr>"
  let ?r3 = "\<lparr>methods = [''*''], fromRe = [Literal [], Literal ''old'', Parameter ''id''],
     keys = [''id''], toPathname = [Literal [], Literal ''third'', Parameter ''id''],
     toUrl = \<lparr>protocol = ''https'', host = ''same_host'', pathname = ''/third/:id'',
               searchParams = [], hash = []\<rparr>\<rparr>"
  let ?t1 = "\<lparr>methods = [''*''], fromRe = [Literal [], Literal ''old'', Parameter ''id''],
     keys = [''id''], toPathname = [Literal [], Literal ''new'', Parameter ''slug''],
     toUrl = \<lparr>protocol = ''https'', host = ''kentcdodds.com'', pathname = ''/new/:slug'',
               searchParams = [], hash = []\<rparr>\<rparr>"
  let ?t2 = "\<lparr>methods = [''*''], fromRe = [Literal [], Literal ''old'', Parameter ''id''],
     keys = [''id''], toPathname = [Literal [], Literal ''other'', Parameter ''id''],
     toUrl = \<lparr>protocol = ''https'', host = ''kentcdodds.com'', pathname = ''/other/42'',
               searchParams = [], hash = []\<rparr>\<rparr>"
  have h: "resolveHost ?req = Some ''kentcdodds.com''"
    and h0: "resolveHost ?about = Some ''kentcdodds.com''"
    by (simp_all add: resolveHost_def)
  have p: "resolveProtocol ''kentcdodds.com'' = ''https''"
    by code_simp
  have u: "newURL ref_lib (resolveProtocol ''kentcdodds.com'' @ ''://'' @ ''kentcdodds.com''
             @ url ?req) = Some ?reqUrl"
    by code_simp
  have u0: "newURL ref_lib (resolveProtocol ''kentcdodds.com'' @ ''://'' @ ''kentcdodds.com''
             @ url ?about) = Some ?aboutUrl"
    by code_simp
  have t1: "tryRedirect ref_lib ?req ''https'' ?reqUrl ?r1 = Thrown ?t1"
    by code_simp
  have t2: "tryRedirect ref_lib ?req ''https'' ?reqUrl ?r2
              = Responded ''https://kentcdodds.com/other/42'' ?t2"
    by code_simp
  have s1: "tryRedirect ref_lib ?about ''https'' ?aboutUrl ?r1 = Skipped"
    and s2: "tryRedirect ref_lib ?about ''https'' ?aboutUrl ?r2 = Skipped"
    and s3: "tryRedirect ref_lib ?about ''https'' ?aboutUrl ?r3 = Skipped"
    by code_simp+
  have "\<exists>pre' log.
          redirectsMiddleware ref_lib ([?r1] @ ?r2 # [?r3]) ?req
            = Inr (Redirect 307 ''https://kentcdodds.com/other/42'', pre' @ ?t2 # [?r3], log)
        \<and> length pre' = 1"
    using first_responding_rule_wins [OF h u, of "[?r1]" ?r2
        "''https://kentcdodds.com/other/42''" ?t2 "[?r3]" "[]"] t1 t2
    unfolding p by simp
  moreover have "\<exists>rs' log. redirectsMiddleware ref_lib [?r1, ?r2, ?r3] ?about
                   = Inr (Next, rs', log)"
    using first_responding_rule_wins [OF h0 u0, of "[]" ?r2
        "''https://kentcdodds.com/other/42''" ?t2 "[]" "[?r1, ?r2, ?r3]"] s1 s2 s3
    unfolding p by simp
  ultimately show ?thesis
    using t1 t2 by blast
qed

section \<open>Named parameters (C8)\<close>

text \<open>
  C8: let the packages behave on the rule \<^verbatim>\<open>/old/:id /new/:id\<close> as documented: the
  pattern \<^verbatim>\<open>/old/:id\<close> compiles to a regular expression with the single key \<^verbatim>\<open>id\<close>, which
  matches \<^verbatim>\<open>/old/42\<close> capturing \<^verbatim>\<open>42\<close>; the destination parses to a URL with path
  \<^verbatim>\<open>/new/:id\<close>, whose template expands to \<^verbatim>\<open>/new/42\<close> for every parameter object in
  which \<^verbatim>\<open>id\<close> is \<^verbatim>\<open>42\<close>. Then the rules file with this one line compiles to one rule with
  the key \<^verbatim>\<open>id\<close>, and a request with the path \<^verbatim>\<open>/old/42\<close> is answered by a 307 redirect to
  a URL whose path is \<^verbatim>\<open>/new/42\<close>: the captured value is stored under the key's name and
  the template is expanded from the names.
\<close>

theorem named_parameter_redirect:
  assumes "pathToRegexp L ''/old/:id'' = Some (re, [''id''])"
    and "newURL L ''https://same_host/new/:id'' = Some u"
    and "pathname u = ''/new/:id''"
    and "compileRedirectPath L ''/new/:id'' = Some tpl"
    and "pathMatch L ''/old/42'' re = Some [Some ''/old/42'', Some ''42'']"
    and "\<forall>params. params ''id'' = Some ''42'' \<longrightarrow> applyTemplate L tpl params = Some ''/new/42''"
    and "path req = ''/old/42''"
    and "resolveHost req = Some h"
    and "newURL L (resolveProtocol h @ ''://'' @ h @ url req) = Some reqUrl"
  shows "\<exists>r target r'.
           getRedirectsMiddleware L ''/old/:id /new/:id'' = Inr ([r], [])
         \<and> keys r = [''id'']
         \<and> redirectsMiddleware L [r] req = Inr (Redirect 307 (urlToString L target), [r'], [])
         \<and> pathname target = ''/new/42''"
proof -
  let ?r = "\<lparr>methods = [''*''], fromRe = re, keys = [''id''], toPathname = tpl, toUrl = u\<rparr>"
  have c: "getRedirectsMiddleware L ''/old/:id /new/:id'' = Inr ([?r], [])"
    using assms(1-4) by (simp add: compile_old_new)
  obtain params where
    b: "bindParams [''id''] [Some ''42''] 0 (\<lambda>name. None) = Some params"
      "params ''id'' = Some ''42''"
    using bindParams_single [of "''id''" "Some ''42''"] by blast
  with assms(6) have a: "applyTemplate L tpl params = Some ''/new/42''"
    by blast
  have "\<exists>location r'. tryRedirect L req (resolveProtocol h) reqUrl ?r = Responded location r'"
    by (rule tryRedirect_responds [where match = "[Some ''/old/42'', Some ''42'']"
          and params = params and p = "''/new/42''"])
       (use assms(5,7) a b in simp_all)
  then obtain location r' where
    t: "tryRedirect L req (resolveProtocol h) reqUrl ?r = Responded location r'"
    by blast
  from tryRedirect_Responded [OF t] assms(5,7) a b
  have "location = urlToString L (toUrl r')" "pathname (toUrl r') = ''/new/42''"
    by auto
  moreover from t assms(8,9)
  have "redirectsMiddleware L [?r] req = Inr (Redirect 307 location, [r'], [])"
    by (simp add: redirectsMiddleware_def Let_def)
  ultimately show ?thesis
    using c by (intro exI [of _ ?r] exI [of _ "toUrl r'"] exI [of _ r']) simp
qed

text \<open>
  C8 with the reference instance of the packages: the rule \<^verbatim>\<open>/old/:id /new/:id\<close> and the
  request \<^verbatim>\<open>GET /old/42\<close> for the host \<^verbatim>\<open>kentcdodds.com\<close> give a redirect to
  \<^verbatim>\<open>https://kentcdodds.com/new/42\<close>.
\<close>

theorem named_parameter_redirect_witness:
  "getRedirectsMiddleware ref_lib ''/old/:id /new/:id''
   = Inr ([\<lparr>methods = [''*''], fromRe = [Literal [], Literal ''old'', Parameter ''id''],
           keys = [''id''], toPathname = [Literal [], Literal ''new'', Parameter ''id''],
           toUrl = \<lparr>protocol = ''https'', host = ''same_host'', pathname = ''/new/:id'',
                     searchParams = [], hash = []\<rparr>\<rparr>], [])
   \<and> redirectsMiddleware ref_lib
         [\<lparr>methods = [''*''], fromRe = [Literal [], Literal ''old'', Parameter ''id''],
           keys = [''id''], toPathname = [Literal [], Literal ''new'', Parameter ''id''],
           toUrl = \<lparr>protocol = ''https'', host = ''same_host'', pathname = ''/new/:id'',
                     searchParams = [], hash = []\<rparr>\<rparr>]
         \<lparr>req_method = ''GET'', url = ''/old/42'', path = ''/old/42'',
     xForwardedHost = None, hostHeader = Some ''kentcdodds.com''\<rparr>
     = Inr (Redirect 307 ''https://kentcdodds.com/new/42'',
            [\<lparr>methods = [''*''], fromRe = [Literal [], Literal ''old'', Parameter ''id''],
           keys = [''id''], toPathname = [Literal [], Literal ''new'', Parameter ''id''],
           toUrl = \<lparr>protocol = ''https'', host = ''kentcdodds.com'', pathname = ''/new/42'',
                     searchParams = [], hash = []\<rparr>\<rparr>], [])"
proof -
  let ?req = "\<lparr>req_method = ''GET'', url = ''/old/42'', path = ''/old/42'',
     xForwardedHost = None, hostHeader = Some ''kentcdodds.com''\<rparr>"
  let ?reqUrl = "\<lparr>protocol = ''https'', host = ''kentcdodds.com'', pathname = ''/old/42'',
        searchParams = [], hash = []\<rparr>"
  let ?re = "[Literal [], Literal ''old'', Parameter ''id'']"
  let ?tpl = "[Literal [], Literal ''new'', Parameter ''id'']"
  let ?u = "\<lparr>protocol = ''https'', host = ''same_host'', pathname = ''/new/:id'',
            searchParams = [], hash = []\<rparr>"
  have 1: "pathToRegexp ref_lib ''/old/:id'' = Some (?re, [''id''])"
    by code_simp
  have 2: "newURL ref_lib ''https://same_host/new/:id'' = Some ?u"
    by code_simp
  have 3: "pathname ?u = ''/new/:id''"
    by simp
  have 4: "compileRedirectPath ref_lib ''/new/:id'' = Some ?tpl"
    by code_simp
  have 5: "pathMatch ref_lib ''/old/42'' ?re = Some [Some ''/old/42'', Some ''42'']"
    by code_simp
  have 6: "\<forall>params. params ''id'' = Some ''42''
             \<longrightarrow> applyTemplate ref_lib ?tpl params = Some ''/new/42''"
  proof (intro allI impI)
    fix params :: "string \<Rightarrow> string option"
    assume "params ''id'' = Some ''42''"
    moreover have "encodeURIComponent ''42'' = ''42''"
      by code_simp
    ultimately show "applyTemplate ref_lib ?tpl params = Some ''/new/42''"
      by (simp add: ref_lib_def ref_applyTemplate_def expandSegment_def)
  qed
  have 7: "path ?req = ''/old/42''"
    by simp
  have 8: "resolveHost ?req = Some ''kentcdodds.com''"
    by (simp add: resolveHost_def)
  have 9: "newURL ref_lib (resolveProtocol ''kentcdodds.com'' @ ''://'' @ ''kentcdodds.com''
             @ url ?req) = Some ?reqUrl"
    by code_simp
  have c: "getRedirectsMiddleware ref_lib ''/old/:id /new/:id''
             = Inr ([\<lparr>methods = [''*''], fromRe = [Literal [], Literal ''old'', Parameter ''id''],
           keys = [''id''], toPathname = [Literal [], Literal ''new'', Parameter ''id''],
           toUrl = \<lparr>protocol = ''https'', host = ''same_host'', pathname = ''/new/:id'',
                     searchParams = [], hash = []\<rparr>\<rparr>], [])"
    by code_simp
  have m: "redirectsMiddleware ref_lib
         [\<lparr>methods = [''*''], fromRe = [Literal [], Literal ''old'', Parameter ''id''],
           keys = [''id''], toPathname = [Literal [], Literal ''new'', Parameter ''id''],
           toUrl = \<lparr>protocol = ''https'', host = ''same_host'', pathname = ''/new/:id'',
                     searchParams = [], hash = []\<rparr>\<rparr>]
         ?req
     = Inr (Redirect 307 ''https://kentcdodds.com/new/42'',
            [\<lparr>methods = [''*''], fromRe = [Literal [], Literal ''old'', Parameter ''id''],
           keys = [''id''], toPathname = [Literal [], Literal ''new'', Parameter ''id''],
           toUrl = \<lparr>protocol = ''https'', host = ''kentcdodds.com'', pathname = ''/new/42'',
                     searchParams = [], hash = []\<rparr>\<rparr>], [])"
    by code_simp
  from named_parameter_redirect [OF 1 2 3 4 5 6 7 8 9] c m
  show ?thesis by blast
qed

section \<open>The trailing-slash middleware (C9)\<close>

text \<open>
  C9, as stated, fails: the claim says that the path is unchanged apart from the trailing
  slash. For the path \<^verbatim>\<open>/a//b/\<close> with the query \<^verbatim>\<open>?x=1\<close> the claim gives the target
  \<^verbatim>\<open>/a//b?x=1\<close>; the middleware redirects to \<^verbatim>\<open>/a/b?x=1\<close>, because \<^verbatim>\<open>safepath\<close>
  also replaces every run of slashes by one slash.
\<close>

theorem trailing_slash_counterexample:
  "trailingSlashMiddleware
     \<lparr>req_method = ''GET'', url = ''/a//b/?x=1'', path = ''/a//b/'',
      xForwardedHost = None, hostHeader = Some ''kentcdodds.com''\<rparr>
     = Redirect 301 ''/a/b?x=1''
   \<and> trailingSlashMiddleware
     \<lparr>req_method = ''GET'', url = ''/a//b/?x=1'', path = ''/a//b/'',
      xForwardedHost = None, hostHeader = Some ''kentcdodds.com''\<rparr>
     \<noteq> Redirect 301 (''/a//b'' @ ''?x=1'')"
  by (simp add: trailingSlashMiddleware_def endsWith_def)

text \<open>
  C9, amended: for a request whose path is \<open>p\<close> followed by a slash, \<open>p\<close> not empty,
  and whose raw URL is the path followed by the query string, the middleware answers 301
  with \<open>p\<close>, every run of consecutive slashes in it replaced by a single slash, followed
  by the query string. The target path has no two consecutive slashes, and it is \<open>p\<close>
  itself when \<open>p\<close> has none. A request whose path does not end in a slash, or is no
  longer than one character, passes through.
\<close>

theorem trailing_slash_redirect:
  "(path req = p @ ''/'' \<and> p \<noteq> [] \<and> url req = path req @ query \<longrightarrow>
      trailingSlashMiddleware req = Redirect 301 (collapseSlashes p @ query)
      \<and> \<not> includes_str (collapseSlashes p) ''//''
      \<and> (\<not> includes_str p ''//'' \<longrightarrow> collapseSlashes p = p))
   \<and> (\<not> endsWith (path req) ''/'' \<or> length (path req) \<le> 1 \<longrightarrow>
        trailingSlashMiddleware req = Next)"
proof -
  have "trailingSlashMiddleware req = Redirect 301 (collapseSlashes p @ query)"
    if "path req = p @ ''/''" "p \<noteq> []" "url req = path req @ query"
    using that endsWith_snoc [of p "CHR ''/''"]
    by (simp add: trailingSlashMiddleware_def)
  moreover have "trailingSlashMiddleware req = Next"
    if "\<not> endsWith (path req) ''/'' \<or> length (path req) \<le> 1"
    using that by (auto simp: trailingSlashMiddleware_def)
  ultimately show ?thesis
    using collapseSlashes_no_run [of p] collapseSlashes_id [of p] by blast
qed

text \<open>
  C9, amended, at \<^verbatim>\<open>/blog/?page=2\<close> (redirected to \<^verbatim>\<open>/blog?page=2\<close>) and at
  \<^verbatim>\<open>/blog?page=2\<close> (passed through).
\<close>

theorem trailing_slash_redirect_witness:
  "trailingSlashMiddleware
     \<lparr>req_method = ''GET'', url = ''/blog/?page=2'', path = ''/blog/'',
      xForwardedHost = None, hostHeader = Some ''kentcdodds.com''\<rparr>
     = Redirect 301 ''/blog?page=2''
   \<and> \<not> includes_str ''/blog'' ''//''
   \<and> trailingSlashMiddleware
     \<lparr>req_method = ''GET'', url = ''/blog?page=2'', path = ''/blog'',
      xForwardedHost = None, hostHeader = Some ''kentcdodds.com''\<rparr>
     = Next"
  using trailing_slash_redirect
    [of "\<lparr>req_method = ''GET'', url = ''/blog/?page=2'', path = ''/blog/'',
          xForwardedHost = None, hostHeader = Some ''kentcdodds.com''\<rparr>"
        "''/blog''" "''?page=2''"]
    trailing_slash_redirect
    [of "\<lparr>req_method = ''GET'', url = ''/blog?page=2'', path = ''/blog'',
          xForwardedHost = None, hostHeader = Some ''kentcdodds.com''\<rparr>"
        "''/blo''" "[]"]
  by (simp add: startsWith_def endsWith_def)

section \<open>Recognition of the method token (C10)\<close>

text \<open>
  C10: the first token of a line is taken as the method list exactly when one of its
  comma-separated pieces is, character for character, one of \<^verbatim>\<open>HEAD\<close>, \<^verbatim>\<open>GET\<close>,
  \<^verbatim>\<open>POST\<close>, \<^verbatim>\<open>PUT\<close>, \<^verbatim>\<open>DELETE\<close>, \<^verbatim>\<open>PATCH\<close>, \<^verbatim>\<open>*\<close>. Then all pieces, recognised or
  not, are the rule's methods, and the next two tokens are \<^verbatim>\<open>from\<close> and \<^verbatim>\<open>to\<close>.
  Otherwise the methods are \<^verbatim>\<open>['*']\<close>, the first token is \<^verbatim>\<open>from\<close> and the second is
  \<^verbatim>\<open>to\<close>.
\<close>

theorem method_token_recognition:
  "((\<exists>t \<in> set (split CHR '','' one).
       t \<in> {''HEAD'', ''GET'', ''POST'', ''PUT'', ''DELETE'', ''PATCH'', ''*''})
     \<longrightarrow> resolveTokens one two three = (split CHR '','' one, two, three))
   \<and> ((\<forall>t \<in> set (split CHR '','' one).
         t \<notin> {''HEAD'', ''GET'', ''POST'', ''PUT'', ''DELETE'', ''PATCH'', ''*''})
       \<longrightarrow> resolveTokens one two three = ([''*''], Some one, two))"
  unfolding resolveTokens_def Let_def possibleMethods_def list_ex_iff
  by auto

text \<open>
  C10 on the two lines of the claim: in \<^verbatim>\<open>get /a /b\<close> the token \<^verbatim>\<open>get\<close> becomes the
  \<^verbatim>\<open>from\<close> pattern of a rule for all methods, with destination \<^verbatim>\<open>/a\<close>, and nothing
  is logged; in \<^verbatim>\<open>GET,FOO /a /b\<close> the methods are \<^verbatim>\<open>GET\<close> and \<^verbatim>\<open>FOO\<close>.
\<close>

theorem method_token_recognition_witness:
  "resolveTokens ''get'' (Some ''/a'') (Some ''/b'') = ([''*''], Some ''get'', Some ''/a'')
   \<and> resolveTokens ''GET,FOO'' (Some ''/a'') (Some ''/b'')
       = ([''GET'', ''FOO''], Some ''/a'', Some ''/b'')
   \<and> getRedirectsMiddleware ref_lib ''get /a /b''
       = Inr ([\<lparr>methods = [''*''], fromRe = [Literal ''get''],
           keys = [], toPathname = [Literal [], Literal ''a''],
           toUrl = \<lparr>protocol = ''https'', host = ''same_host'', pathname = ''/a'',
                      searchParams = [], hash = []\<rparr>\<rparr>], [])
   \<and> getRedirectsMiddleware ref_lib ''GET,FOO /a /b''
       = Inr ([\<lparr>methods = [''GET'', ''FOO''], fromRe = [Literal [], Literal ''a''],
           keys = [], toPathname = [Literal [], Literal ''b''],
           toUrl = \<lparr>protocol = ''https'', host = ''same_host'', pathname = ''/b'',
                     searchParams = [], hash = []\<rparr>\<rparr>], [])"
proof -
  have "getRedirectsMiddleware ref_lib ''get /a /b''
       = Inr ([\<lparr>methods = [''*''], fromRe = [Literal ''get''],
           keys = [], toPathname = [Literal [], Literal ''a''],
           toUrl = \<lparr>protocol = ''https'', host = ''same_host'', pathname = ''/a'',
                      searchParams = [], hash = []\<rparr>\<rparr>], [])"
    by code_simp
  moreover
  have "getRedirectsMiddleware ref_lib ''GET,FOO /a /b''
       = Inr ([\<lparr>methods = [''GET'', ''FOO''], fromRe = [Literal [], Literal ''a''],
           keys = [], toPathname = [Literal [], Literal ''b''],
           toUrl = \<lparr>protocol = ''https'', host = ''same_host'', pathname = ''/b'',
                     searchParams = [], hash = []\<rparr>\<rparr>], [])"
    by code_simp
  ultimately show ?thesis
    using method_token_recognition [of "''get''" "Some ''/a''" "Some ''/b''"]
          method_token_recognition [of "''GET,FOO''" "Some ''/a''" "Some ''/b''"]
    by simp
qed

end
